theory Spec2Isabelle
  imports Main "HOL-Library.Multiset"
begin

section \<open>Python values\<close>

text \<open>
  The dictionaries the extractor builds and the values \<^verbatim>\<open>json.loads\<close> returns are
  modelled by one datatype. A dictionary is an association list in insertion order (the
  order \<^verbatim>\<open>dict.values()\<close> iterates in); its keys are strings. Numbers are
  integers: the line numbers of the schema are, and floating point is left out of the
  model. Strings are lists of 8-bit characters, read as the code points below 256.
\<close>

datatype json =
    JNull
  | JBool bool
  | JInt int
  | JString string
  | JArray "json list"
  | JObject "(string \<times> json) list"

text \<open>
  The exceptions the modelled functions can raise, as values. An exception that external
  code raises is the name of its class, what formatting it gives (\<^verbatim>\<open>f"{e}"\<close> calls
  its \<^verbatim>\<open>__str__\<close>, which returns the message or raises an exception of its own), and
  whether its class derives from \<^verbatim>\<open>Exception\<close>.
\<close>

datatype py_exc =
  PyExc (exc_type: string) (exc_str: "py_exc + string") (is_Exception: bool)

datatype py_error =
    FileNotFoundError
  | SyntaxError
  | JSONDecodeError
  | TypeError
  | AttributeError
  | KeyError
  | RuntimeError string
  | Propagated py_exc

abbreviation LF :: char where "LF \<equiv> CHR 0x0A"
abbreviation CR :: char where "CR \<equiv> CHR 0x0D"
abbreviation TAB :: char where "TAB \<equiv> CHR 0x09"
abbreviation SP :: char where "SP \<equiv> CHR 0x20"

subsection \<open>Dictionaries\<close>

text \<open>\<^verbatim>\<open>d[k] = v\<close>: a key already present keeps its position and gets the new value.\<close>

fun dict_set :: "'k \<Rightarrow> 'v \<Rightarrow> ('k \<times> 'v) list \<Rightarrow> ('k \<times> 'v) list" where
  "dict_set k v [] = [(k, v)]"
| "dict_set k v ((k', v') # kvs) =
     (if k' = k then (k, v) # kvs else (k', v') # dict_set k v kvs)"

definition dict_get :: "('k \<times> 'v) list \<Rightarrow> 'k \<Rightarrow> 'v option" where
  "dict_get d k = map_of d k"

definition dict_keys :: "('k \<times> 'v) list \<Rightarrow> 'k list" where
  "dict_keys d = map fst d"

definition dict_values :: "('k \<times> 'v) list \<Rightarrow> 'v list" where
  "dict_values d = map snd d"

section \<open>String operations of the Python library\<close>

text \<open>
  \<^verbatim>\<open>str.splitlines()\<close>: a line ends at \<^verbatim>\<open>\n\<close>, \<^verbatim>\<open>\r\<close>, \<^verbatim>\<open>\r\n\<close>,
  \<^verbatim>\<open>\v\<close>, \<^verbatim>\<open>\f\<close>, \<^verbatim>\<open>\x1c\<close>, \<^verbatim>\<open>\x1d\<close>, \<^verbatim>\<open>\x1e\<close> or \<^verbatim>\<open>\x85\<close>
  (and at U+2028 and U+2029, which 8-bit characters do not reach); the line ends are
  dropped, and no empty last line is produced after a final line end.
\<close>

definition is_linebreak :: "char \<Rightarrow> bool" where
  "is_linebreak c =
     (c \<in> set [CHR 0x0A, CHR 0x0B, CHR 0x0C, CHR 0x0D, CHR 0x1C, CHR 0x1D, CHR 0x1E, CHR 0x85])"

fun splitlines_from :: "string \<Rightarrow> string \<Rightarrow> string list" where
  "splitlines_from cur [] = (if cur = [] then [] else [cur])"
| "splitlines_from cur [c] = (if is_linebreak c then [cur] else [cur @ [c]])"
| "splitlines_from cur (c # d # cs) =
     (if c = CR \<and> d = LF then cur # splitlines_from [] cs
      else if is_linebreak c then cur # splitlines_from [] (d # cs)
      else splitlines_from (cur @ [c]) (d # cs))"

definition splitlines :: "string \<Rightarrow> string list" where
  "splitlines s = splitlines_from [] s"

text \<open>\<^verbatim>\<open>str.expandtabs()\<close> with the default tab size 8.\<close>

fun expandtabs_from :: "nat \<Rightarrow> string \<Rightarrow> string" where
  "expandtabs_from col [] = []"
| "expandtabs_from col (c # cs) =
     (if c = TAB then replicate (8 - col mod 8) SP @ expandtabs_from (col + (8 - col mod 8)) cs
      else if c = LF \<or> c = CR then c # expandtabs_from 0 cs
      else c # expandtabs_from (col + 1) cs)"

definition expandtabs :: "string \<Rightarrow> string" where
  "expandtabs s = expandtabs_from 0 s"

text \<open>\<^verbatim>\<open>str.split(sep)\<close> for a separator of one character, and \<^verbatim>\<open>sep.join(xs)\<close>.\<close>

fun split_on :: "char \<Rightarrow> string \<Rightarrow> string list" where
  "split_on sep [] = [[]]"
| "split_on sep (c # cs) =
     (if c = sep then [] # split_on sep cs
      else (case split_on sep cs of [] \<Rightarrow> [[c]] | l # ls \<Rightarrow> (c # l) # ls))"

fun join :: "string \<Rightarrow> string list \<Rightarrow> string" where
  "join sep [] = []"
| "join sep [x] = x"
| "join sep (x # y # ys) = x @ sep @ join sep (y # ys)"

text \<open>\<^verbatim>\<open>str.isspace\<close> on one character below 256, and \<^verbatim>\<open>str.lstrip()\<close>.\<close>

definition is_space :: "char \<Rightarrow> bool" where
  "is_space c =
     (c \<in> set [CHR 0x09, CHR 0x0A, CHR 0x0B, CHR 0x0C, CHR 0x0D, CHR 0x1C, CHR 0x1D, CHR 0x1E,
                CHR 0x1F, CHR 0x20, CHR 0x85, CHR 0xA0])"

definition lstrip :: "string \<Rightarrow> string" where
  "lstrip s = dropWhile is_space s"

text \<open>
  \<^verbatim>\<open>inspect.cleandoc\<close>, which \<^verbatim>\<open>ast.get_docstring\<close> applies by default:
  tabs are expanded, the first line loses its leading white space, the other lines lose
  the smallest indentation of a non-blank line among them, and empty lines at both ends
  are removed. The margin is \<open>None\<close> where the library keeps \<^verbatim>\<open>sys.maxsize\<close>.
\<close>

fun margin_loop :: "nat option \<Rightarrow> string list \<Rightarrow> nat option" where
  "margin_loop margin [] = margin"
| "margin_loop margin (line # lines) =
     (let content = length (lstrip line) in
      if content \<noteq> 0 then
        (let indent = length line - content in
         margin_loop (Some (case margin of None \<Rightarrow> indent | Some m \<Rightarrow> min m indent)) lines)
      else margin_loop margin lines)"

definition cleandoc :: "string \<Rightarrow> string" where
  "cleandoc doc =
     (case split_on LF (expandtabs doc) of
        [] \<Rightarrow> []
      | first # rest \<Rightarrow>
          (let margin = margin_loop None rest;
               lines = lstrip first #
                 (case margin of None \<Rightarrow> rest | Some m \<Rightarrow> map (drop m) rest);
               lines = rev (dropWhile (\<lambda>l. l = []) (rev lines));
               lines = dropWhile (\<lambda>l. l = []) lines
           in join [LF] lines))"

section \<open>The syntax tree\<close>

text \<open>
  What the extractor reads of a node of Python's \<^verbatim>\<open>ast\<close>: the kind of the node,
  and for a class or function its name, body, \<^verbatim>\<open>lineno\<close> and \<^verbatim>\<open>end_lineno\<close>
  (\<open>None\<close> when the node has no such attribute). The parser and the unparser are
  external: they are parameters of the functions below.
\<close>

datatype const_value = StrConst string | OtherConst

datatype expr = Constant const_value | OtherExpr

datatype ast_node =
    Module (body: "ast_node list")
  | ClassDef (name: string) (body: "ast_node list") (lineno: int) (end_lineno: "int option")
  | FunctionDef (name: string) (body: "ast_node list") (lineno: int) (end_lineno: "int option")
  | AsyncFunctionDef (name: string) (body: "ast_node list") (lineno: int)
      (end_lineno: "int option")
  | Expr expr
  | OtherStmt

fun is_ClassDef :: "ast_node \<Rightarrow> bool" where
  "is_ClassDef (ClassDef n b l e) = True"
| "is_ClassDef _ = False"

fun is_FunctionDef :: "ast_node \<Rightarrow> bool" where
  "is_FunctionDef (FunctionDef n b l e) = True"
| "is_FunctionDef (AsyncFunctionDef n b l e) = True"
| "is_FunctionDef _ = False"

text \<open>
  \<^verbatim>\<open>ast.get_docstring(node)\<close> on a class or function node: the first statement of
  the body, when it is an expression statement holding a string constant, cleaned.
\<close>

fun get_docstring :: "ast_node list \<Rightarrow> string option" where
  "get_docstring (Expr (Constant (StrConst s)) # rest) = Some (cleandoc s)"
| "get_docstring _ = None"

section \<open>ExtractASTDefinitions\<close>

text \<open>
  \<^verbatim>\<open>process_node\<close> dispatches on the kind of the node; \<^verbatim>\<open>process_class\<close> and
  \<^verbatim>\<open>process_function\<close> build the record of a definition and walk its body
  (\<open>nested_loop\<close> is their \<^verbatim>\<open>for item in node.body\<close>, with the two lists it appends
  to); \<^verbatim>\<open>process_module\<close> builds the record of the file (\<open>module_loop\<close> is its
  loop, with the \<^verbatim>\<open>output["module"]\<close> dictionary it assigns into).
\<close>

definition definition_record ::
  "string \<Rightarrow> string option \<Rightarrow> json list \<times> json list \<Rightarrow> int \<Rightarrow> int option \<Rightarrow> json" where
  "definition_record text docstring nested ln end_ln =
     (let output = [];
          output = dict_set ''functionDefinition'' (JString text) output;
          output = (case docstring of
                      None \<Rightarrow> output
                    | Some d \<Rightarrow> if d \<noteq> [] then dict_set ''docstring'' (JString d) output
                               else output);
          output = dict_set ''functions'' (JArray (fst nested)) output;
          output = dict_set ''summary'' (JArray []) output;
          output = dict_set ''classes'' (JArray (snd nested)) output;
          output = dict_set ''startLine'' (JInt ln) output;
          output = dict_set ''endLine''
                     (JInt (case end_ln of None \<Rightarrow> ln | Some e \<Rightarrow> e)) output
      in JObject output)"

function (sequential) process_node ::
    "(ast_node \<Rightarrow> string) \<Rightarrow> ast_node \<Rightarrow> string \<Rightarrow> string option \<Rightarrow> json"
  and process_module ::
    "(ast_node \<Rightarrow> string) \<Rightarrow> ast_node \<Rightarrow> string \<Rightarrow> string option \<Rightarrow> json"
  and process_class :: "(ast_node \<Rightarrow> string) \<Rightarrow> ast_node \<Rightarrow> string \<Rightarrow> json"
  and process_function :: "(ast_node \<Rightarrow> string) \<Rightarrow> ast_node \<Rightarrow> string \<Rightarrow> json"
  and nested_loop ::
    "(ast_node \<Rightarrow> string) \<Rightarrow> ast_node list \<Rightarrow> string \<Rightarrow> json list \<times> json list
      \<Rightarrow> json list \<times> json list"
  and module_loop ::
    "(ast_node \<Rightarrow> string) \<Rightarrow> ast_node list \<Rightarrow> string \<Rightarrow> (string \<times> json) list
      \<Rightarrow> (string \<times> json) list"
where
  "process_node unparse node code_string file_path =
     (case node of
        Module b \<Rightarrow> process_module unparse node code_string file_path
      | ClassDef n b l e \<Rightarrow> process_class unparse node code_string
      | FunctionDef n b l e \<Rightarrow> process_function unparse node code_string
      | AsyncFunctionDef n b l e \<Rightarrow> process_function unparse node code_string
      | _ \<Rightarrow> JObject [])"
| "process_module unparse (Module b) code_string file_path =
     (let output = [];
          output = dict_set ''summary'' (JArray []) output;
          output = (case file_path of
                      None \<Rightarrow> output
                    | Some p \<Rightarrow> if p \<noteq> [] then dict_set ''file'' (JString p) output
                               else output);
          output = dict_set ''module'' (JObject (module_loop unparse b code_string [])) output;
          output = dict_set ''startLine'' (JInt 1) output;
          output = dict_set ''endLine'' (JInt (int (length (splitlines code_string)))) output
      in JObject output)"
| "process_class unparse (ClassDef n b l e) code_string =
     definition_record (unparse (ClassDef n b l e)) (get_docstring b)
       (nested_loop unparse b code_string ([], [])) l e"
| "process_function unparse (FunctionDef n b l e) code_string =
     definition_record (unparse (FunctionDef n b l e)) (get_docstring b)
       (nested_loop unparse b code_string ([], [])) l e"
| "process_function unparse (AsyncFunctionDef n b l e) code_string =
     definition_record (unparse (AsyncFunctionDef n b l e)) (get_docstring b)
       (nested_loop unparse b code_string ([], [])) l e"
| "nested_loop unparse [] code_string acc = acc"
| "nested_loop unparse (item # items) code_string acc =
     nested_loop unparse items code_string
       (if is_FunctionDef item
        then (fst acc @ [process_node unparse item code_string None], snd acc)
        else if is_ClassDef item
        then (fst acc, snd acc @ [process_node unparse item code_string None])
        else acc)"
| "module_loop unparse [] code_string module = module"
| "module_loop unparse (item # items) code_string module =
     module_loop unparse items code_string
       (if is_ClassDef item \<or> is_FunctionDef item
        then dict_set (name item) (process_node unparse item code_string None) module
        else module)"
  by pat_completeness auto
termination
  apply (relation "measure (\<lambda>x. case x of
      Inl (Inl (u, n, c, f)) \<Rightarrow> 2 * size n + 2 | Inl (Inr (Inl (u, n, c, f))) \<Rightarrow> 2 * size n + 1 | Inl (Inr (Inr (u, n, c))) \<Rightarrow> 2 * size n + 1
     | Inr (Inl (u, n, c)) \<Rightarrow> 2 * size n + 1 | Inr (Inr (Inl (u, ns, c, a))) \<Rightarrow> 2 * size_list size ns + 1 | Inr (Inr (Inr (u, ns, c, a))) \<Rightarrow> 2 * size_list size ns + 1)")
  apply simp_all
  done


section \<open>Files\<close>

text \<open>
  The file system maps a path to the bytes of the file. The code opens every file in text
  mode with the default \<^verbatim>\<open>newline=None\<close>: reading translates \<^verbatim>\<open>\r\n\<close> and
  \<^verbatim>\<open>\r\<close> to \<^verbatim>\<open>\n\<close>, writing translates \<^verbatim>\<open>\n\<close> to the platform's
  \<^verbatim>\<open>os.linesep\<close> (a parameter: \<^verbatim>\<open>\n\<close> on POSIX, \<^verbatim>\<open>\r\n\<close> on Windows).
  The character encoding is not modelled, nor are directories and permissions:
  opening fails for the empty path and, when reading, for a path with no file.
\<close>

type_synonym filesystem = "string \<rightharpoonup> string"

fun universal_newlines :: "string \<Rightarrow> string" where
  "universal_newlines [] = []"
| "universal_newlines [c] = (if c = CR then [LF] else [c])"
| "universal_newlines (c # d # cs) =
     (if c = CR \<and> d = LF then LF # universal_newlines cs
      else if c = CR then LF # universal_newlines (d # cs)
      else c # universal_newlines (d # cs))"

definition write_newlines :: "string \<Rightarrow> string \<Rightarrow> string" where
  "write_newlines linesep s = concat (map (\<lambda>c. if c = LF then linesep else [c]) s)"

definition read_text :: "filesystem \<Rightarrow> string \<Rightarrow> py_error + string" where
  "read_text fs path =
     (if path = [] then Inl FileNotFoundError
      else case fs path of
             None \<Rightarrow> Inl FileNotFoundError
           | Some bytes \<Rightarrow> Inr (universal_newlines bytes))"

definition write_text :: "string \<Rightarrow> filesystem \<Rightarrow> string \<Rightarrow> string \<Rightarrow> py_error + filesystem" where
  "write_text linesep fs path s =
     (if path = [] then Inl FileNotFoundError
      else Inr (fs(path \<mapsto> write_newlines linesep s)))"

text \<open>
  \<^verbatim>\<open>extract_all_definitions\<close> (and \<^verbatim>\<open>get_ast_as_dict\<close>, which only calls it):
  read the file, parse it, process the root node with the path.
\<close>

definition extract_all_definitions ::
  "filesystem \<Rightarrow> (string \<Rightarrow> py_error + ast_node) \<Rightarrow> (ast_node \<Rightarrow> string) \<Rightarrow> string
    \<Rightarrow> py_error + json" where
  "extract_all_definitions fs parse unparse file_path =
     (case read_text fs file_path of
        Inl e \<Rightarrow> Inl e
      | Inr file_contents \<Rightarrow>
          (case parse file_contents of
             Inl e \<Rightarrow> Inl e
           | Inr module \<Rightarrow> Inr (process_node unparse module file_contents (Some file_path))))"

section \<open>DefinitionRebuilder\<close>

subsection \<open>The operations of Python the rebuilder applies to decoded values\<close>

text \<open>\<^verbatim>\<open>k in data\<close> for a string \<open>k\<close>: a key of a dictionary, an element of a list, a
  substring of a string; any other value is not iterable.\<close>

fun is_substring :: "string \<Rightarrow> string \<Rightarrow> bool" where
  "is_substring k [] = (k = [])"
| "is_substring k (c # cs) = (take (length k) (c # cs) = k \<or> is_substring k cs)"

fun py_contains :: "string \<Rightarrow> json \<Rightarrow> py_error + bool" where
  "py_contains k (JObject d) = Inr (k \<in> set (dict_keys d))"
| "py_contains k (JArray xs) = Inr (JString k \<in> set xs)"
| "py_contains k (JString s) = Inr (is_substring k s)"
| "py_contains k _ = Inl TypeError"

text \<open>\<^verbatim>\<open>data[k]\<close> for a string \<open>k\<close>: only a dictionary can be indexed by a string.\<close>

fun py_getitem :: "json \<Rightarrow> string \<Rightarrow> py_error + json" where
  "py_getitem (JObject d) k = (case dict_get d k of None \<Rightarrow> Inl KeyError | Some v \<Rightarrow> Inr v)"
| "py_getitem _ k = Inl TypeError"

text \<open>\<^verbatim>\<open>m.values()\<close> and \<^verbatim>\<open>d.get(k, default)\<close>: attributes of dictionaries only.\<close>

fun py_values :: "json \<Rightarrow> py_error + json list" where
  "py_values (JObject d) = Inr (dict_values d)"
| "py_values _ = Inl AttributeError"

fun py_get :: "json \<Rightarrow> string \<Rightarrow> json \<Rightarrow> py_error + json" where
  "py_get (JObject d) k dflt = Inr (case dict_get d k of None \<Rightarrow> dflt | Some v \<Rightarrow> v)"
| "py_get _ k dflt = Inl AttributeError"

text \<open>
  \<^verbatim>\<open>==\<close> and \<^verbatim>\<open><\<close> on decoded values. Booleans are the integers 0 and 1; strings
  are ordered by code point and lists lexicographically; every other pair of values
  makes \<^verbatim>\<open><\<close> raise \<^verbatim>\<open>TypeError\<close>.
\<close>

function py_eq :: "json \<Rightarrow> json \<Rightarrow> bool" where
  "py_eq JNull b = (b = JNull)"
| "py_eq (JBool x) b =
     (case b of JBool y \<Rightarrow> x = y | JInt j \<Rightarrow> (if x then 1 else 0) = j | _ \<Rightarrow> False)"
| "py_eq (JInt i) b =
     (case b of JBool y \<Rightarrow> i = (if y then 1 else 0) | JInt j \<Rightarrow> i = j | _ \<Rightarrow> False)"
| "py_eq (JString s) b = (b = JString s)"
| "py_eq (JArray xs) b = (case b of JArray ys \<Rightarrow> list_all2 py_eq xs ys | _ \<Rightarrow> False)"
| "py_eq (JObject xs) b =
     (case b of
        JObject ys \<Rightarrow>
          length xs = length ys \<and>
          list_all (\<lambda>(k, v). case map_of ys k of None \<Rightarrow> False | Some w \<Rightarrow> py_eq v w) xs
      | _ \<Rightarrow> False)"
  by pat_completeness auto
termination
  apply (relation "measure (\<lambda>(a, b). size a)")
    apply auto
  subgoal for xs x by (induction xs) auto
  subgoal for xs ys k v w by (induction xs) auto
  done

fun str_lt :: "string \<Rightarrow> string \<Rightarrow> bool" where
  "str_lt [] [] = False"
| "str_lt [] (y # ys) = True"
| "str_lt (x # xs) [] = False"
| "str_lt (x # xs) (y # ys) =
     (if x = y then str_lt xs ys else (of_char x :: nat) < of_char y)"

fun py_lt :: "json \<Rightarrow> json \<Rightarrow> py_error + bool"
  and py_lt_list :: "json list \<Rightarrow> json list \<Rightarrow> py_error + bool"
where
  "py_lt (JBool x) (JBool y) = Inr (\<not> x \<and> y)"
| "py_lt (JBool x) (JInt j) = Inr ((if x then 1 else 0) < j)"
| "py_lt (JInt i) (JBool y) = Inr (i < (if y then 1 else 0))"
| "py_lt (JInt i) (JInt j) = Inr (i < j)"
| "py_lt (JString s) (JString t) = Inr (str_lt s t)"
| "py_lt (JArray xs) (JArray ys) = py_lt_list xs ys"
| "py_lt _ _ = Inl TypeError"
| "py_lt_list [] [] = Inr False"
| "py_lt_list [] (y # ys) = Inr True"
| "py_lt_list (x # xs) [] = Inr False"
| "py_lt_list (x # xs) (y # ys) = (if py_eq x y then py_lt_list xs ys else py_lt x y)"

text \<open>
  \<^verbatim>\<open>sorted(xs, key=f)\<close>: the keys are computed first, for every element; the sort is
  stable and compares keys with \<^verbatim>\<open><\<close> only. It is modelled as an insertion sort from
  the right, where an element goes before the first one whose key is not smaller than
  its own, so that elements with equal keys keep their order. A comparison that raises
  makes the sort raise. (Which pairs the library's merge sort compares can differ from
  the pairs compared here; that is seen only on list-valued keys, where a comparison
  raises for some pairs and not for others.)
\<close>

fun collect_keys :: "('a \<Rightarrow> py_error + json) \<Rightarrow> 'a list \<Rightarrow> py_error + (json \<times> 'a) list" where
  "collect_keys key [] = Inr []"
| "collect_keys key (x # xs) =
     (case key x of
        Inl e \<Rightarrow> Inl e
      | Inr k \<Rightarrow> (case collect_keys key xs of Inl e \<Rightarrow> Inl e | Inr ks \<Rightarrow> Inr ((k, x) # ks)))"

fun insort_py :: "json \<times> 'a \<Rightarrow> (json \<times> 'a) list \<Rightarrow> py_error + (json \<times> 'a) list" where
  "insort_py x [] = Inr [x]"
| "insort_py x (y # ys) =
     (case py_lt (fst y) (fst x) of
        Inl e \<Rightarrow> Inl e
      | Inr lt \<Rightarrow>
          if lt then (case insort_py x ys of Inl e \<Rightarrow> Inl e | Inr zs \<Rightarrow> Inr (y # zs))
          else Inr (x # y # ys))"

fun sort_py :: "(json \<times> 'a) list \<Rightarrow> py_error + (json \<times> 'a) list" where
  "sort_py [] = Inr []"
| "sort_py (x # xs) = (case sort_py xs of Inl e \<Rightarrow> Inl e | Inr ys \<Rightarrow> insort_py x ys)"

definition py_sorted :: "('a \<Rightarrow> py_error + json) \<Rightarrow> 'a list \<Rightarrow> py_error + 'a list" where
  "py_sorted key xs =
     (case collect_keys key xs of
        Inl e \<Rightarrow> Inl e
      | Inr ks \<Rightarrow> (case sort_py ks of Inl e \<Rightarrow> Inl e | Inr ys \<Rightarrow> Inr (map snd ys)))"

text \<open>\<^verbatim>\<open>sep.join(xs)\<close> on a list of values: every item must be a string.\<close>

fun py_strings :: "json list \<Rightarrow> py_error + string list" where
  "py_strings [] = Inr []"
| "py_strings (JString s # xs) =
     (case py_strings xs of Inl e \<Rightarrow> Inl e | Inr ss \<Rightarrow> Inr (s # ss))"
| "py_strings (_ # xs) = Inl TypeError"

definition py_join :: "string \<Rightarrow> json list \<Rightarrow> py_error + string" where
  "py_join sep xs = (case py_strings xs of Inl e \<Rightarrow> Inl e | Inr ss \<Rightarrow> Inr (join sep ss))"

subsection \<open>rebuild_from_json\<close>

text \<open>
  The body of both loops of \<^verbatim>\<open>rebuild_from_json\<close>: append
  \<^verbatim>\<open>d["functionDefinition"]\<close>, or else \<^verbatim>\<open>d["defString"]\<close>, or nothing.
\<close>

definition append_definition :: "json \<Rightarrow> json list \<Rightarrow> py_error + json list" where
  "append_definition d rebuilt_lines =
     (case py_contains ''functionDefinition'' d of
        Inl e \<Rightarrow> Inl e
      | Inr has_fd \<Rightarrow>
          if has_fd then
            (case py_getitem d ''functionDefinition'' of
               Inl e \<Rightarrow> Inl e
             | Inr v \<Rightarrow> Inr (rebuilt_lines @ [v]))
          else
            (case py_contains ''defString'' d of
               Inl e \<Rightarrow> Inl e
             | Inr has_ds \<Rightarrow>
                 if has_ds then
                   (case py_getitem d ''defString'' of
                      Inl e \<Rightarrow> Inl e
                    | Inr v \<Rightarrow> Inr (rebuilt_lines @ [v]))
                 else Inr rebuilt_lines))"

fun append_loop :: "json list \<Rightarrow> json list \<Rightarrow> py_error + json list" where
  "append_loop [] rebuilt_lines = Inr rebuilt_lines"
| "append_loop (d # ds) rebuilt_lines =
     (case append_definition d rebuilt_lines of
        Inl e \<Rightarrow> Inl e
      | Inr rebuilt_lines' \<Rightarrow> append_loop ds rebuilt_lines')"

definition start_key :: "json \<Rightarrow> py_error + json" where
  "start_key d = py_get d ''startLine'' (JInt 0)"

text \<open>What \<^verbatim>\<open>rebuild_from_json\<close> does with the decoded value.\<close>

definition rebuild_from_data :: "json \<Rightarrow> py_error + string" where
  "rebuild_from_data data =
     (case py_contains ''module'' data of
        Inl e \<Rightarrow> Inl e
      | Inr has_module \<Rightarrow>
          if has_module then
            (case py_getitem data ''module'' of
               Inl e \<Rightarrow> Inl e
             | Inr m \<Rightarrow>
                 (case py_values m of
                    Inl e \<Rightarrow> Inl e
                  | Inr defs \<Rightarrow>
                      (case py_sorted start_key defs of
                         Inl e \<Rightarrow> Inl e
                       | Inr defs_sorted \<Rightarrow>
                           (case append_loop defs_sorted [] of
                              Inl e \<Rightarrow> Inl e
                            | Inr rebuilt_lines \<Rightarrow> py_join [LF, LF] rebuilt_lines))))
          else
            (case append_definition data [] of
               Inl e \<Rightarrow> Inl e
             | Inr rebuilt_lines \<Rightarrow> py_join [LF, LF] rebuilt_lines))"

text \<open>\<^verbatim>\<open>json.loads\<close> is external: a parameter, which fails with \<open>JSONDecodeError\<close>
  or returns the decoded value.\<close>

definition rebuild_from_json :: "(string \<Rightarrow> py_error + json) \<Rightarrow> string \<Rightarrow> py_error + string" where
  "rebuild_from_json loads json_string =
     (case loads json_string of
        Inl e \<Rightarrow> Inl e
      | Inr data \<Rightarrow> rebuild_from_data data)"

subsection \<open>execute_rebuilt\<close>

text \<open>
  \<^verbatim>\<open>compile\<close> and \<^verbatim>\<open>exec\<close> are external: parameters that return what they produce
  or the exception they raise. \<^verbatim>\<open>exec\<close> gets the new empty dictionary and returns it
  as the executed code left it. The handler is \<^verbatim>\<open>except Exception as e\<close>: it catches
  the exceptions that derive from \<^verbatim>\<open>Exception\<close> and raises
  \<^verbatim>\<open>RuntimeError(f"Error executing rebuilt source code: {e}")\<close>; any other exception
  (\<^verbatim>\<open>SystemExit\<close>, \<^verbatim>\<open>KeyboardInterrupt\<close>, a class that derives from
  \<^verbatim>\<open>BaseException\<close> only) passes through it. The message is formatted inside the
  handler, before the \<^verbatim>\<open>RuntimeError\<close> is built: when formatting the caught exception
  raises, that exception leaves the handler and no \<^verbatim>\<open>RuntimeError\<close> is raised.
\<close>

definition except_Exception :: "py_exc \<Rightarrow> py_error + 'a" where
  "except_Exception e =
     (if is_Exception e
      then (case exc_str e of
              Inl e' \<Rightarrow> Inl (Propagated e')
            | Inr message \<Rightarrow>
                Inl (RuntimeError (''Error executing rebuilt source code: '' @ message)))
      else Inl (Propagated e))"

definition execute_rebuilt ::
  "(string \<Rightarrow> py_error + json) \<Rightarrow> (string \<Rightarrow> py_exc + 'code)
    \<Rightarrow> ('code \<Rightarrow> (string \<times> 'v) list \<Rightarrow> py_exc + (string \<times> 'v) list) \<Rightarrow> string
    \<Rightarrow> py_error + (string \<times> 'v) list" where
  "execute_rebuilt loads compile exec json_string =
     (case rebuild_from_json loads json_string of
        Inl e \<Rightarrow> Inl e
      | Inr source_code \<Rightarrow>
          (case compile source_code of
             Inl e \<Rightarrow> except_Exception e
           | Inr compiled_code \<Rightarrow>
               (case exec compiled_code [] of
                  Inl e \<Rightarrow> except_Exception e
                | Inr namespace \<Rightarrow> Inr namespace)))"

subsection \<open>rebuild_from_dict_or_json\<close>

text \<open>
  The result is the returned text with the file system after the call.
  \<^verbatim>\<open>json.dumps\<close> is a parameter too. A path that is not a string is refused here
  (Python takes an integer for a file descriptor, which is outside the model).
\<close>

definition open_read :: "filesystem \<Rightarrow> json \<Rightarrow> py_error + string" where
  "open_read fs p = (case p of JString path \<Rightarrow> read_text fs path | _ \<Rightarrow> Inl TypeError)"

definition rebuild_from_dict_or_json ::
  "string \<Rightarrow> filesystem \<Rightarrow> (string \<Rightarrow> py_error + json) \<Rightarrow> (json \<Rightarrow> string) \<Rightarrow> json \<Rightarrow> string
    \<Rightarrow> py_error + string \<times> filesystem" where
  "rebuild_from_dict_or_json linesep fs loads dumps data output_file_path =
     (case (case data of JString s \<Rightarrow> loads s | _ \<Rightarrow> Inr data) of
        Inl e \<Rightarrow> Inl e
      | Inr data \<Rightarrow>
          (case py_contains ''file'' data of
             Inl e \<Rightarrow> Inl e
           | Inr has_file \<Rightarrow>
               if has_file then
                 (case py_getitem data ''file'' of
                    Inl e \<Rightarrow> Inl e
                  | Inr p \<Rightarrow>
                      (case open_read fs p of
                         Inl e \<Rightarrow> Inl e
                       | Inr original_source \<Rightarrow>
                           (case write_text linesep fs output_file_path original_source of
                              Inl e \<Rightarrow> Inl e
                            | Inr fs' \<Rightarrow> Inr (original_source, fs'))))
               else
                 (case rebuild_from_json loads (dumps data) of
                    Inl e \<Rightarrow> Inl e
                  | Inr source_code \<Rightarrow>
                      (case write_text linesep fs output_file_path source_code of
                         Inl e \<Rightarrow> Inl e
                       | Inr fs' \<Rightarrow> Inr (source_code, fs')))))"

section \<open>Reading the records\<close>

text \<open>
  The fields of a record, one field by its key, the \<^verbatim>\<open>module\<close> dictionary of the
  record of a file; the nodes the extractor takes for definitions, and the definitions of
  a body that carry a given name, in source order.
\<close>

fun fields :: "json \<Rightarrow> (string \<times> json) list" where
  "fields (JObject d) = d"
| "fields _ = []"

definition field :: "json \<Rightarrow> string \<Rightarrow> json option" where
  "field j k = dict_get (fields j) k"

definition is_definition :: "ast_node \<Rightarrow> bool" where
  "is_definition item = (is_ClassDef item \<or> is_FunctionDef item)"


definition module_of :: "json \<Rightarrow> (string \<times> json) list" where
  "module_of j = (case field j ''module'' of Some (JObject m) \<Rightarrow> m | _ \<Rightarrow> [])"

fun starts_with_string_literal :: "ast_node list \<Rightarrow> bool" where
  "starts_with_string_literal (Expr (Constant (StrConst s)) # rest) = True"
| "starts_with_string_literal _ = False"

text \<open>
  The line count of a text in the spec's words, independent of \<^verbatim>\<open>splitlines\<close>:
  the number of line ends (\<^verbatim>\<open>\n\<close>, \<^verbatim>\<open>\r\n\<close> or \<^verbatim>\<open>\r\<close>), and one more
  for a last line that has no line end. \<open>newline_only\<close> texts have no other character
  that \<^verbatim>\<open>splitlines\<close> takes for a line end.
\<close>

fun count_line_ends :: "string \<Rightarrow> nat" where
  "count_line_ends [] = 0"
| "count_line_ends [c] = (if c = LF \<or> c = CR then 1 else 0)"
| "count_line_ends (c # d # cs) =
     (if c = CR \<and> d = LF then 1 + count_line_ends cs
      else (if c = LF \<or> c = CR then 1 else 0) + count_line_ends (d # cs))"

definition line_count :: "string \<Rightarrow> nat" where
  "line_count s =
     count_line_ends s + (if s = [] \<or> last s = LF \<or> last s = CR then 0 else 1)"

definition newline_only :: "string \<Rightarrow> bool" where
  "newline_only s = list_all (\<lambda>c. \<not> is_linebreak c \<or> c = LF \<or> c = CR) s"






text \<open>
  What \<^verbatim>\<open>rebuild_from_json\<close> reads of an entry of the \<^verbatim>\<open>module\<close> dictionary:
  its sort key (0 without a \<^verbatim>\<open>startLine\<close>) and its text, \<^verbatim>\<open>functionDefinition\<close>
  or else \<^verbatim>\<open>defString\<close> (no text without both). An entry is well formed when it
  is a dictionary whose \<^verbatim>\<open>startLine\<close>, if any, is an integer and whose text
  field, if any, is a string.
\<close>

definition entry_start :: "json \<Rightarrow> int" where
  "entry_start d = (case field d ''startLine'' of Some (JInt i) \<Rightarrow> i | _ \<Rightarrow> 0)"

definition entry_text :: "json \<Rightarrow> string list" where
  "entry_text d =
     (case field d ''functionDefinition'' of
        Some (JString s) \<Rightarrow> [s]
      | Some _ \<Rightarrow> []
      | None \<Rightarrow> (case field d ''defString'' of Some (JString s) \<Rightarrow> [s] | _ \<Rightarrow> []))"

fun int_or_absent :: "json option \<Rightarrow> bool" where
  "int_or_absent None = True"
| "int_or_absent (Some (JInt i)) = True"
| "int_or_absent _ = False"

fun string_or_absent :: "json option \<Rightarrow> bool" where
  "string_or_absent None = True"
| "string_or_absent (Some (JString s)) = True"
| "string_or_absent _ = False"

definition wf_entry :: "json \<Rightarrow> bool" where
  "wf_entry d =
     (case d of
        JObject e \<Rightarrow>
          int_or_absent (dict_get e ''startLine'')
          \<and> string_or_absent (dict_get e ''functionDefinition'')
          \<and> (dict_get e ''functionDefinition'' \<noteq> None
               \<or> string_or_absent (dict_get e ''defString''))
      | _ \<Rightarrow> False)"

text \<open>
  The definitions of a syntax tree below a definition, at any depth and in the order of
  \<open>definitions_in\<close>: the node, then what its function children hold, then what its
  class children hold. The line span a record has, and the line span the extractor is
  to give the record of a node: its \<^verbatim>\<open>lineno\<close>, and its \<^verbatim>\<open>end_lineno\<close> or else
  its \<^verbatim>\<open>lineno\<close>.
\<close>

fun definition_nodes :: "ast_node \<Rightarrow> ast_node list" where
  "definition_nodes (ClassDef n b l e) =
     ClassDef n b l e
       # concat (map definition_nodes (filter is_FunctionDef b))
       @ concat (map definition_nodes (filter is_ClassDef b))"
| "definition_nodes (FunctionDef n b l e) =
     FunctionDef n b l e
       # concat (map definition_nodes (filter is_FunctionDef b))
       @ concat (map definition_nodes (filter is_ClassDef b))"
| "definition_nodes (AsyncFunctionDef n b l e) =
     AsyncFunctionDef n b l e
       # concat (map definition_nodes (filter is_FunctionDef b))
       @ concat (map definition_nodes (filter is_ClassDef b))"
| "definition_nodes (Module b) = []"
| "definition_nodes (Expr x) = []"
| "definition_nodes OtherStmt = []"

definition line_span :: "json \<Rightarrow> json option \<times> json option" where
  "line_span r = (field r ''startLine'', field r ''endLine'')"

definition node_span :: "ast_node \<Rightarrow> json option \<times> json option" where
  "node_span n =
     (Some (JInt (lineno n)),
      Some (JInt (case end_lineno n of None \<Rightarrow> lineno n | Some e \<Rightarrow> e)))"

section \<open>Lemmas on the extractor\<close>


lemma dict_keys_dict_set:
  "dict_keys (dict_set k v d) = (if k \<in> set (dict_keys d) then dict_keys d else dict_keys d @ [k])"
proof (induction d)
  case Nil
  show ?case by (simp add: dict_keys_def)
next
  case (Cons kv d)
  obtain k' v' where kv: "kv = (k', v')" by (cases kv)
  show ?case
    using Cons.IH unfolding kv by (cases "k' = k") (simp_all add: dict_keys_def)
qed

lemma dict_set_fresh: "k \<notin> set (dict_keys d) \<Longrightarrow> dict_set k v d = d @ [(k, v)]"
  by (induction d) (auto simp: dict_keys_def)

lemma definition_record_fields:
  "definition_record t doc nested l e =
     JObject ((''functionDefinition'', JString t) #
       (case doc of None \<Rightarrow> [] | Some d \<Rightarrow> if d \<noteq> [] then [(''docstring'', JString d)] else []) @
       [(''functions'', JArray (fst nested)), (''summary'', JArray []),
        (''classes'', JArray (snd nested)), (''startLine'', JInt l),
        (''endLine'', JInt (case e of None \<Rightarrow> l | Some e' \<Rightarrow> e'))])"
  by (simp add: definition_record_def split: option.splits)

lemma nested_loop_eq:
  "nested_loop u b cs acc =
     (fst acc @ map (\<lambda>i. process_node u i cs None) (filter is_FunctionDef b),
      snd acc @ map (\<lambda>i. process_node u i cs None) (filter is_ClassDef b))"
proof (induction b arbitrary: acc)
  case Nil
  show ?case by simp
next
  case (Cons item items)
  show ?case
    by (cases item) (simp_all add: Cons.IH)
qed

lemma process_definition:
  assumes "is_definition node"
  shows "process_node u node cs fp =
     definition_record (u node) (get_docstring (body node))
       (map (\<lambda>i. process_node u i cs None) (filter is_FunctionDef (body node)),
        map (\<lambda>i. process_node u i cs None) (filter is_ClassDef (body node)))
       (lineno node) (end_lineno node)"
  using assms by (cases node) (simp_all add: is_definition_def nested_loop_eq)


lemma module_loop_keys_set:
  "set (dict_keys (module_loop u b cs m)) = set (dict_keys m) \<union> name ` {d \<in> set b. is_definition d}"
proof (induction b arbitrary: m)
  case Nil
  show ?case by simp
next
  case (Cons item items)
  show ?case
    unfolding module_loop.simps Cons.IH
    by (auto simp: is_definition_def dict_keys_dict_set simp del: process_node.simps)
qed


lemma module_loop_distinct_names:
  assumes "distinct (map name (filter is_definition b))"
    and "set (dict_keys m) \<inter> name ` {d \<in> set b. is_definition d} = {}"
  shows "module_loop u b cs m =
     m @ map (\<lambda>d. (name d, process_node u d cs None)) (filter is_definition b)"
  using assms
proof (induction b arbitrary: m)
  case Nil
  then show ?case by simp
next
  case (Cons item items)
  show ?case
  proof (cases "is_definition item")
    case True
    then have fresh: "name item \<notin> set (dict_keys m)"
      using Cons.prems(2) by auto
    have "module_loop u (item # items) cs m =
        module_loop u items cs (m @ [(name item, process_node u item cs None)])"
      using True fresh by (simp add: is_definition_def dict_set_fresh del: process_node.simps)
    also have "\<dots> = (m @ [(name item, process_node u item cs None)]) @
        map (\<lambda>d. (name d, process_node u d cs None)) (filter is_definition items)"
      using Cons.prems True by (intro Cons.IH) (auto simp: dict_keys_def)
    finally show ?thesis using True by simp
  next
    case False
    have "module_loop u (item # items) cs m = module_loop u items cs m"
      using False by (simp add: is_definition_def del: process_node.simps)
    also have "\<dots> = m @ map (\<lambda>d. (name d, process_node u d cs None)) (filter is_definition items)"
      using Cons.prems False by (intro Cons.IH) auto
    finally show ?thesis using False by simp
  qed
qed

lemma process_module_fields:
  "process_node u (Module b) cs fp =
     JObject ((''summary'', JArray []) #
       (case fp of None \<Rightarrow> [] | Some p \<Rightarrow> if p \<noteq> [] then [(''file'', JString p)] else []) @
       [(''module'', JObject (module_loop u b cs [])), (''startLine'', JInt 1),
        (''endLine'', JInt (int (length (splitlines cs))))])"
  by (simp split: option.splits)


lemma field_definition_record:
  "field (definition_record t doc nested l e) k =
     (if k = ''functionDefinition'' then Some (JString t)
      else if k = ''docstring'' then
        (case doc of None \<Rightarrow> None | Some d \<Rightarrow> if d \<noteq> [] then Some (JString d) else None)
      else if k = ''functions'' then Some (JArray (fst nested))
      else if k = ''summary'' then Some (JArray [])
      else if k = ''classes'' then Some (JArray (snd nested))
      else if k = ''startLine'' then Some (JInt l)
      else if k = ''endLine'' then Some (JInt (case e of None \<Rightarrow> l | Some e' \<Rightarrow> e'))
      else None)"
  by (simp add: definition_record_fields field_def dict_get_def split: option.splits)

lemma module_of_process_module:
  "module_of (process_node u (Module b) cs fp) = module_loop u b cs []"
  by (simp add: process_module_fields module_of_def field_def dict_get_def
      del: process_node.simps split: option.splits)

lemma cleandoc_empty: "cleandoc [] = []"
  by (simp add: cleandoc_def expandtabs_def lstrip_def)

section \<open>C10: an empty leading string literal gives no docstring field\<close>

text \<open>
  Claim C10. For a class or function whose body begins with a string literal, the record
  has a \<^verbatim>\<open>docstring\<close> field exactly when the cleaned literal is not empty (the
  test is the truth value of the docstring, not the presence of the literal); so for the
  empty literal \<^verbatim>\<open>""\<close> the record has no \<^verbatim>\<open>docstring\<close> field at all.
\<close>

theorem empty_docstring_literal_gives_no_field:
  assumes "is_definition node"
    and "body node = Expr (Constant (StrConst s)) # rest"
  shows "(field (process_node unparse node code_string file_path) ''docstring'' \<noteq> None)
           = (cleandoc s \<noteq> [])
       \<and> (s = [] \<longrightarrow> field (process_node unparse node code_string file_path) ''docstring'' = None)"
  using assms
  by (simp add: process_definition field_definition_record cleandoc_empty
      del: process_node.simps)

theorem empty_docstring_literal_gives_no_field_witness:
  "is_definition (FunctionDef ''f'' [Expr (Constant (StrConst [])), OtherStmt] 1 (Some 2))
   \<and> field (process_node (\<lambda>n. ''def f(): ...'')
        (FunctionDef ''f'' [Expr (Constant (StrConst [])), OtherStmt] 1 (Some 2)) [] None)
        ''docstring'' = None"
  using empty_docstring_literal_gives_no_field
    [of "FunctionDef ''f'' [Expr (Constant (StrConst [])), OtherStmt] 1 (Some 2)" "[]"
      "[OtherStmt]" "\<lambda>n. ''def f(): ...''" "[]" None]
  by (simp add: is_definition_def)

section \<open>C7: of sibling definitions with one name the last is kept\<close>



lemma get_docstring_None: "\<not> starts_with_string_literal b \<Longrightarrow> get_docstring b = None"
  by (induction b rule: starts_with_string_literal.induct) simp_all

lemma expandtabs_from_no_tab: "TAB \<notin> set s \<Longrightarrow> expandtabs_from col s = s"
  by (induction s arbitrary: col) auto

lemma split_on_absent: "c \<notin> set s \<Longrightarrow> split_on c s = [s]"
  by (induction s) auto

lemma cleandoc_single_line:
  assumes "s \<noteq> []" and "\<not> is_space (hd s)" and "LF \<notin> set s" and "TAB \<notin> set s"
  shows "cleandoc s = s"
proof -
  have "lstrip s = s"
    using assms(1,2) by (cases s) (simp_all add: lstrip_def)
  then show ?thesis
    using assms by (simp add: cleandoc_def expandtabs_def expandtabs_from_no_tab split_on_absent)
qed

section \<open>C5: the docstring field is the cleaned literal, when that is not empty\<close>

text \<open>
  The claim as stated fails twice: a function whose body begins with the literal
  \<^verbatim>\<open>""\<close> gets no \<^verbatim>\<open>docstring\<close> field, and a class whose body begins with
  \<^verbatim>\<open>" x"\<close> gets the docstring \<^verbatim>\<open>"x"\<close>, not the literal.
\<close>

theorem docstring_counterexample:
  "field (process_node (\<lambda>n. []) (FunctionDef ''f'' [Expr (Constant (StrConst ''''))] 1 (Some 1)) [] None)
     ''docstring'' = None
   \<and> field (process_node (\<lambda>n. []) (ClassDef ''C'' [Expr (Constant (StrConst '' x''))] 1 (Some 1)) [] None)
     ''docstring'' = Some (JString ''x'')"
  by (simp add: field_definition_record cleandoc_def expandtabs_def lstrip_def is_space_def)

text \<open>
  Claim C5, amended. For a class or function whose body begins with a string literal, the
  \<^verbatim>\<open>docstring\<close> field is the literal as \<^verbatim>\<open>inspect.cleandoc\<close> cleans it, and
  is absent when the cleaned text is empty; it is the literal itself when that is one
  non-empty line with no tab that does not begin with white space. When the body does
  not begin with a string literal, the field is absent.
\<close>

theorem docstring_is_the_cleaned_literal:
  assumes "is_definition node"
  shows "(body node = Expr (Constant (StrConst s)) # rest \<longrightarrow>
            field (process_node unparse node code_string file_path) ''docstring''
              = (if cleandoc s = [] then None else Some (JString (cleandoc s))))
       \<and> (body node = Expr (Constant (StrConst s)) # rest \<and> s \<noteq> [] \<and> \<not> is_space (hd s)
            \<and> LF \<notin> set s \<and> TAB \<notin> set s \<longrightarrow>
            field (process_node unparse node code_string file_path) ''docstring''
              = Some (JString s))
       \<and> (\<not> starts_with_string_literal (body node) \<longrightarrow>
            field (process_node unparse node code_string file_path) ''docstring'' = None)"
  using assms
  by (simp add: process_definition field_definition_record get_docstring_None
      cleandoc_single_line del: process_node.simps)

theorem docstring_is_the_cleaned_literal_witness:
  "is_definition (ClassDef ''Person'' [Expr (Constant (StrConst ''Person class'')), OtherStmt] 1 (Some 4))
   \<and> field (process_node (\<lambda>n. []) (ClassDef ''Person'' [Expr (Constant (StrConst ''Person class'')), OtherStmt] 1 (Some 4)) [] None)
       ''docstring'' = Some (JString ''Person class'')
   \<and> is_definition (FunctionDef ''f'' [OtherStmt] 1 (Some 2))
   \<and> \<not> starts_with_string_literal [OtherStmt]
   \<and> field (process_node (\<lambda>n. []) (FunctionDef ''f'' [OtherStmt] 1 (Some 2)) [] None) ''docstring'' = None"
  using docstring_is_the_cleaned_literal
      [of "ClassDef ''Person'' [Expr (Constant (StrConst ''Person class'')), OtherStmt] 1 (Some 4)"
        "''Person class''" "[OtherStmt]" "\<lambda>n. []" "[]" None]
    docstring_is_the_cleaned_literal
      [of "FunctionDef ''f'' [OtherStmt] 1 (Some 2)" "[]" "[]" "\<lambda>n. []" "[]" None]
  by (simp add: is_definition_def is_space_def cleandoc_def expandtabs_def lstrip_def
      del: process_node.simps)

lemma dict_values_dict_set:
  "set (dict_values (dict_set k v d)) \<subseteq> insert v (set (dict_values d))"
proof (induction d)
  case Nil
  show ?case by (simp add: dict_values_def)
next
  case (Cons kv d)
  obtain k' v' where kv: "kv = (k', v')" by (cases kv)
  show ?case
    using Cons.IH unfolding kv by (cases "k' = k") (auto simp: dict_values_def)
qed

lemma module_loop_values:
  "set (dict_values (module_loop u b cs m))
     \<subseteq> set (dict_values m) \<union> (\<lambda>d. process_node u d cs None) ` {d \<in> set b. is_definition d}"
proof (induction b arbitrary: m)
  case Nil
  show ?case by simp
next
  case (Cons item items)
  show ?case
  proof (cases "is_definition item")
    case True
    have "set (dict_values (module_loop u (item # items) cs m))
        \<subseteq> set (dict_values (dict_set (name item) (process_node u item cs None) m))
          \<union> (\<lambda>d. process_node u d cs None) ` {d \<in> set items. is_definition d}"
      using True Cons.IH by (simp add: is_definition_def del: process_node.simps)
    also have "\<dots> \<subseteq> set (dict_values m)
        \<union> (\<lambda>d. process_node u d cs None) ` {d \<in> set (item # items). is_definition d}"
      using True dict_values_dict_set [of "name item" "process_node u item cs None" m] by auto
    finally show ?thesis .
  next
    case False
    have "module_loop u (item # items) cs m = module_loop u items cs m"
      using False by (simp add: is_definition_def del: process_node.simps)
    then show ?thesis using Cons.IH [of m] by auto
  qed
qed

section \<open>C8: only direct children are recorded\<close>

text \<open>
  The claim as stated fails on a module with two functions named \<^verbatim>\<open>f\<close>: both are
  direct statements of the body, and the \<^verbatim>\<open>module\<close> dictionary holds one entry.
\<close>

theorem direct_children_counterexample:
  "filter is_definition [FunctionDef ''f'' [] 1 (Some 1), FunctionDef ''f'' [] 2 (Some 2)]
     = [FunctionDef ''f'' [] 1 (Some 1), FunctionDef ''f'' [] 2 (Some 2)]
   \<and> module_of (process_node (\<lambda>n. []) (Module [FunctionDef ''f'' [] 1 (Some 1), FunctionDef ''f'' [] 2 (Some 2)]) [] None)
     = [(''f'', process_node (\<lambda>n. []) (FunctionDef ''f'' [] 2 (Some 2)) [] None)]"
  by (simp add: module_of_process_module is_definition_def del: process_node.simps)

text \<open>
  Claim C8, amended. The keys of the \<^verbatim>\<open>module\<close> dictionary are exactly the names
  of the class and function statements of the module body, and every value is the record
  of one of them (no other statement gives a record, and none raises); when their names
  are pairwise distinct, the dictionary holds exactly their records, in source order.
  The \<^verbatim>\<open>functions\<close> and \<^verbatim>\<open>classes\<close> lists of a definition hold exactly the
  records of the function and class statements of its body, in source order.
\<close>

theorem direct_children_only:
  "set (dict_keys (module_of (process_node unparse (Module b) code_string file_path)))
       = name ` {d \<in> set b. is_definition d}
   \<and> set (dict_values (module_of (process_node unparse (Module b) code_string file_path)))
       \<subseteq> (\<lambda>d. process_node unparse d code_string None) ` {d \<in> set b. is_definition d}
   \<and> (distinct (map name (filter is_definition b)) \<longrightarrow>
        module_of (process_node unparse (Module b) code_string file_path)
          = map (\<lambda>d. (name d, process_node unparse d code_string None)) (filter is_definition b))
   \<and> (is_definition node \<longrightarrow>
        field (process_node unparse node code_string file_path) ''functions''
          = Some (JArray (map (\<lambda>d. process_node unparse d code_string None)
              (filter is_FunctionDef (body node))))
      \<and> field (process_node unparse node code_string file_path) ''classes''
          = Some (JArray (map (\<lambda>d. process_node unparse d code_string None)
              (filter is_ClassDef (body node)))))"
proof -
  let ?m = "module_of (process_node unparse (Module b) code_string file_path)"
  have m: "?m = module_loop unparse b code_string []"
    by (rule module_of_process_module)
  have keys: "set (dict_keys ?m) = name ` {d \<in> set b. is_definition d}"
    unfolding m module_loop_keys_set by (simp add: dict_keys_def)
  have vals: "set (dict_values ?m)
      \<subseteq> (\<lambda>d. process_node unparse d code_string None) ` {d \<in> set b. is_definition d}"
    unfolding m using module_loop_values [of unparse b code_string "[]"]
    by (simp add: dict_values_def)
  have exact: "?m = map (\<lambda>d. (name d, process_node unparse d code_string None))
      (filter is_definition b)" if "distinct (map name (filter is_definition b))"
    unfolding m using module_loop_distinct_names [OF that, of "[]" unparse code_string]
    by (simp add: dict_keys_def)
  have nested: "field (process_node unparse node code_string file_path) ''functions''
          = Some (JArray (map (\<lambda>d. process_node unparse d code_string None)
              (filter is_FunctionDef (body node))))
      \<and> field (process_node unparse node code_string file_path) ''classes''
          = Some (JArray (map (\<lambda>d. process_node unparse d code_string None)
              (filter is_ClassDef (body node))))" if "is_definition node"
    using that by (simp add: process_definition field_definition_record del: process_node.simps)
  from keys vals exact nested show ?thesis by blast
qed

theorem direct_children_only_witness:
  "distinct (map name (filter is_definition [OtherStmt, FunctionDef ''f'' [] 2 (Some 2), ClassDef ''C'' [] 4 (Some 5)]))
   \<and> module_of (process_node (\<lambda>n. []) (Module [OtherStmt, FunctionDef ''f'' [] 2 (Some 2), ClassDef ''C'' [] 4 (Some 5)]) [] None)
     = [(''f'', process_node (\<lambda>n. []) (FunctionDef ''f'' [] 2 (Some 2)) [] None),
        (''C'', process_node (\<lambda>n. []) (ClassDef ''C'' [] 4 (Some 5)) [] None)]
   \<and> is_definition (ClassDef ''C'' [FunctionDef ''g'' [] 5 (Some 5), OtherStmt] 4 (Some 5))
   \<and> field (process_node (\<lambda>n. []) (ClassDef ''C'' [FunctionDef ''g'' [] 5 (Some 5), OtherStmt] 4 (Some 5)) [] None) ''functions''
     = Some (JArray [process_node (\<lambda>n. []) (FunctionDef ''g'' [] 5 (Some 5)) [] None])"
  using direct_children_only
    [of "\<lambda>n. []" "[OtherStmt, FunctionDef ''f'' [] 2 (Some 2), ClassDef ''C'' [] 4 (Some 5)]" "[]" None
      "ClassDef ''C'' [FunctionDef ''g'' [] 5 (Some 5), OtherStmt] 4 (Some 5)"]
  by (simp add: is_definition_def del: process_node.simps)

section \<open>Lemmas on lines\<close>

lemma is_linebreak_LF_CR: "is_linebreak LF" "is_linebreak CR"
  by (simp_all add: is_linebreak_def)

lemma splitlines_from_count:
  "newline_only s \<Longrightarrow>
     length (splitlines_from cur s) =
       count_line_ends s +
       (if s = [] then (if cur = [] then 0 else 1)
        else if last s = LF \<or> last s = CR then 0 else 1)"
proof (induction cur s rule: splitlines_from.induct)
  case (1 cur)
  show ?case by simp
next
  case (2 cur c)
  then show ?case by (auto simp: newline_only_def is_linebreak_LF_CR)
next
  case (3 cur c d cs)
  then show ?case
    by (auto simp: newline_only_def is_linebreak_LF_CR)
qed

lemma splitlines_line_count: "newline_only s \<Longrightarrow> length (splitlines s) = line_count s"
  by (simp add: splitlines_def line_count_def splitlines_from_count)

lemma module_record_lines:
  "field (process_node unparse (Module b) code_string file_path) ''startLine'' = Some (JInt 1)
   \<and> field (process_node unparse (Module b) code_string file_path) ''endLine''
       = Some (JInt (int (length (splitlines code_string))))"
  by (simp add: process_module_fields field_def dict_get_def del: process_node.simps
      split: option.splits)


section \<open>C4: the line span of the file record\<close>

text \<open>
  Claim C4, at the input where the code leaves it. The record of a file has
  \<^verbatim>\<open>startLine\<close> 1 and the number of lines \<^verbatim>\<open>splitlines\<close> gives as
  \<^verbatim>\<open>endLine\<close>, which is 0 with an empty \<^verbatim>\<open>module\<close> for the empty text and
  the line count for a text whose line ends are \<^verbatim>\<open>\n\<close>, \<^verbatim>\<open>\r\n\<close> or
  \<^verbatim>\<open>\r\<close> (the three lemmas above). A form feed is a line end for
  \<^verbatim>\<open>splitlines\<close> only: the one-line text \<^verbatim>\<open>"pass\f\n"\<close> gets
  \<^verbatim>\<open>endLine\<close> 2.
\<close>

theorem form_feed_is_counted_as_a_line:
  "field (process_node (\<lambda>n. []) (Module [OtherStmt]) (''pass'' @ [CHR 0x0C, LF]) (Some ''F.py''))
     ''endLine'' = Some (JInt 2)
   \<and> line_count (''pass'' @ [CHR 0x0C, LF]) = 1"
  by (simp add: module_record_lines splitlines_def is_linebreak_def line_count_def
      del: process_node.simps)

section \<open>C9: malformed text fails with the decoder's error\<close>

text \<open>
  Claim C9. When \<^verbatim>\<open>json.loads\<close> rejects the text with \<^verbatim>\<open>JSONDecodeError\<close>,
  \<^verbatim>\<open>rebuild_from_json\<close> fails with that error, and so does
  \<^verbatim>\<open>rebuild_from_dict_or_json\<close> on the text: decoding is the first step, so no
  definition is read and no text is produced or written.
\<close>

theorem malformed_text_fails_with_decode_error:
  assumes "loads json_string = Inl JSONDecodeError"
  shows "rebuild_from_json loads json_string = Inl JSONDecodeError
       \<and> rebuild_from_dict_or_json linesep fs loads dumps (JString json_string) output_file_path
           = Inl JSONDecodeError"
  using assms by (simp add: rebuild_from_json_def rebuild_from_dict_or_json_def)

theorem malformed_text_fails_with_decode_error_witness:
  "(\<lambda>s. if s = ''invalid json'' then Inl JSONDecodeError else Inr JNull) ''invalid json''
     = Inl JSONDecodeError
   \<and> rebuild_from_json (\<lambda>s. if s = ''invalid json'' then Inl JSONDecodeError else Inr JNull)
       ''invalid json'' = Inl JSONDecodeError"
  using malformed_text_fails_with_decode_error
    [of "\<lambda>s. if s = ''invalid json'' then Inl JSONDecodeError else Inr JNull" "''invalid json''"]
  by simp

section \<open>C6: failures of the rebuilt code\<close>

text \<open>
  The claim as stated fails when the rebuilt code raises an exception that does not derive
  from \<^verbatim>\<open>Exception\<close>: a \<^verbatim>\<open>SystemExit\<close> raised while the code is executed leaves
  \<^verbatim>\<open>execute_rebuilt\<close> as it is, not as a \<^verbatim>\<open>RuntimeError\<close>.
\<close>

theorem system_exit_is_not_wrapped:
  "execute_rebuilt
     (\<lambda>s. Inr (JObject [(''functionDefinition'', JString ''raise SystemExit(1)'')]))
     (\<lambda>src. Inr src)
     (\<lambda>code ns. Inl (PyExc ''SystemExit'' (Inr ''1'') False))
     ''json text''
   = (Inl (Propagated (PyExc ''SystemExit'' (Inr ''1'') False))
       :: py_error + (string \<times> nat) list)"
  by (simp add: execute_rebuilt_def rebuild_from_json_def rebuild_from_data_def
      append_definition_def dict_keys_def dict_get_def py_join_def except_Exception_def)

text \<open>
  Claim C6, amended. When the source is rebuilt, a failure of compiling or executing it
  that derives from \<^verbatim>\<open>Exception\<close> and whose message can be formatted is raised again
  as \<^verbatim>\<open>RuntimeError\<close> with the message \<^verbatim>\<open>Error executing rebuilt source code: \<close>
  followed by the message of the failure; when formatting the failure raises an exception
  (its \<^verbatim>\<open>__str__\<close> raises), that exception is what leaves, not a
  \<^verbatim>\<open>RuntimeError\<close>; an exception that derives from \<^verbatim>\<open>BaseException\<close> only passes
  unchanged; and when both steps succeed the result is the dictionary that
  \<^verbatim>\<open>exec\<close> filled, starting from an empty one.
\<close>

theorem failures_that_are_Exceptions_are_wrapped:
  assumes "rebuild_from_json loads json_string = Inr source_code"
  shows "(compile source_code = Inl e \<and> is_Exception e \<and> exc_str e = Inr message \<longrightarrow>
            execute_rebuilt loads compile exec json_string
              = Inl (RuntimeError (''Error executing rebuilt source code: '' @ message)))
       \<and> (compile source_code = Inr compiled_code \<and> exec compiled_code [] = Inl e
            \<and> is_Exception e \<and> exc_str e = Inr message \<longrightarrow>
            execute_rebuilt loads compile exec json_string
              = Inl (RuntimeError (''Error executing rebuilt source code: '' @ message)))
       \<and> (compile source_code = Inl e \<and> is_Exception e \<and> exc_str e = Inl e' \<longrightarrow>
            execute_rebuilt loads compile exec json_string = Inl (Propagated e'))
       \<and> (compile source_code = Inr compiled_code \<and> exec compiled_code [] = Inl e
            \<and> is_Exception e \<and> exc_str e = Inl e' \<longrightarrow>
            execute_rebuilt loads compile exec json_string = Inl (Propagated e'))
       \<and> (compile source_code = Inl e \<and> \<not> is_Exception e \<longrightarrow>
            execute_rebuilt loads compile exec json_string = Inl (Propagated e))
       \<and> (compile source_code = Inr compiled_code \<and> exec compiled_code [] = Inl e
            \<and> \<not> is_Exception e \<longrightarrow>
            execute_rebuilt loads compile exec json_string = Inl (Propagated e))
       \<and> (compile source_code = Inr compiled_code \<and> exec compiled_code [] = Inr namespace \<longrightarrow>
            execute_rebuilt loads compile exec json_string = Inr namespace)"
  using assms by (simp add: execute_rebuilt_def except_Exception_def)

theorem failures_that_are_Exceptions_are_wrapped_witness:
  "rebuild_from_json (\<lambda>s. Inr (JObject [(''functionDefinition'', JString ''def f(:'')])) ''{}''
     = Inr ''def f(:''
   \<and> execute_rebuilt (\<lambda>s. Inr (JObject [(''functionDefinition'', JString ''def f(:'')]))
       (\<lambda>src. Inl (PyExc ''SyntaxError'' (Inr ''invalid syntax'') True))
       (\<lambda>code ns. Inr ns) ''{}''
     = (Inl (RuntimeError ''Error executing rebuilt source code: invalid syntax'')
         :: py_error + (string \<times> nat) list)
   \<and> rebuild_from_json (\<lambda>s. Inr (JObject [(''functionDefinition'', JString ''raise E()'')])) ''{}''
     = Inr ''raise E()''
   \<and> execute_rebuilt (\<lambda>s. Inr (JObject [(''functionDefinition'', JString ''raise E()'')]))
       (\<lambda>src. Inr src)
       (\<lambda>code ns. Inl (PyExc ''E'' (Inl (PyExc ''ValueError'' (Inr ''no text'') True)) True))
       ''{}''
     = (Inl (Propagated (PyExc ''ValueError'' (Inr ''no text'') True))
         :: py_error + (string \<times> nat) list)"
proof -
  let ?loads = "\<lambda>s :: string. (Inr (JObject [(''functionDefinition'', JString ''def f(:'')])
      :: py_error + json)"
  let ?loads' = "\<lambda>s :: string. (Inr (JObject [(''functionDefinition'', JString ''raise E()'')])
      :: py_error + json)"
  have r: "rebuild_from_json ?loads ''{}'' = Inr ''def f(:''"
    by (simp add: rebuild_from_json_def rebuild_from_data_def append_definition_def
        dict_keys_def dict_get_def py_join_def)
  have r': "rebuild_from_json ?loads' ''{}'' = Inr ''raise E()''"
    by (simp add: rebuild_from_json_def rebuild_from_data_def append_definition_def
        dict_keys_def dict_get_def py_join_def)
  have wrapped: "execute_rebuilt ?loads
       (\<lambda>src. Inl (PyExc ''SyntaxError'' (Inr ''invalid syntax'') True))
       (\<lambda>code ns. Inr ns) ''{}''
     = (Inl (RuntimeError ''Error executing rebuilt source code: invalid syntax'')
         :: py_error + (string \<times> nat) list)"
    using failures_that_are_Exceptions_are_wrapped [OF r,
        where compile = "\<lambda>src. Inl (PyExc ''SyntaxError'' (Inr ''invalid syntax'') True)"
          and e = "PyExc ''SyntaxError'' (Inr ''invalid syntax'') True"
          and message = "''invalid syntax''"
          and exec = "\<lambda>code ns. Inr (ns :: (string \<times> nat) list)"]
    by simp
  have raised: "execute_rebuilt ?loads' (\<lambda>src. Inr src)
       (\<lambda>code ns. Inl (PyExc ''E'' (Inl (PyExc ''ValueError'' (Inr ''no text'') True)) True))
       ''{}''
     = (Inl (Propagated (PyExc ''ValueError'' (Inr ''no text'') True))
         :: py_error + (string \<times> nat) list)"
    using failures_that_are_Exceptions_are_wrapped [OF r',
        where compile = "\<lambda>src. Inr src"
          and compiled_code = "''raise E()''"
          and exec = "\<lambda>code ns. Inl (PyExc ''E'' (Inl (PyExc ''ValueError'' (Inr ''no text'') True)) True)
             :: py_exc + (string \<times> nat) list"
          and e = "PyExc ''E'' (Inl (PyExc ''ValueError'' (Inr ''no text'') True)) True"
          and e' = "PyExc ''ValueError'' (Inr ''no text'') True"]
    by simp
  from r r' wrapped raised show ?thesis by blast
qed









lemma definition_nodes_definition:
  "is_definition node \<Longrightarrow>
     definition_nodes node =
       node # concat (map definition_nodes (filter is_FunctionDef (body node)))
         @ concat (map definition_nodes (filter is_ClassDef (body node)))"
  by (cases node) (simp_all add: is_definition_def)

lemma line_span_record:
  "line_span (definition_record t doc nested l e)
     = (Some (JInt l), Some (JInt (case e of None \<Rightarrow> l | Some e' \<Rightarrow> e')))"
  by (simp add: line_span_def field_definition_record)

lemma definition_line_span:
  "is_definition node \<Longrightarrow> line_span (process_node u node cs fp) = node_span node"
  by (simp add: process_definition line_span_record node_span_def del: process_node.simps)



section \<open>C3: line spans\<close>




section \<open>C1: the copy of the original file\<close>

lemma universal_newlines_no_CR: "CR \<notin> set s \<Longrightarrow> universal_newlines s = s"
  by (induction s rule: universal_newlines.induct) auto

lemma write_newlines_posix: "write_newlines [LF] s = s"
  by (induction s) (auto simp: write_newlines_def)

lemma extracted_record_has_file:
  assumes "extract_all_definitions fs parse unparse file_path = Inr d"
    and "read_text fs file_path = Inr file_contents"
    and "parse file_contents = Inr (Module b)"
  shows "py_contains ''file'' d = Inr True \<and> py_getitem d ''file'' = Inr (JString file_path)"
proof -
  have "file_path \<noteq> []"
    using assms(2) by (auto simp: read_text_def)
  then show ?thesis
    using assms
    by (auto simp: extract_all_definitions_def process_module_fields dict_keys_def dict_get_def
        simp del: process_node.simps)
qed

lemma rebuild_copies_the_text_read:
  assumes "extract_all_definitions fs parse unparse file_path = Inr d"
    and "read_text fs file_path = Inr file_contents"
    and "parse file_contents = Inr (Module b)"
    and "output_file_path \<noteq> []"
  shows "rebuild_from_dict_or_json linesep fs loads dumps d output_file_path
      = Inr (file_contents, fs(output_file_path \<mapsto> write_newlines linesep file_contents))"
proof -
  have d: "d = process_node unparse (Module b) file_contents (Some file_path)"
    using assms(1-3) by (simp add: extract_all_definitions_def del: process_node.simps)
  have obj: "\<exists>kvs. d = JObject kvs"
    unfolding d by (simp add: process_module_fields del: process_node.simps)
  then obtain kvs where kvs: "d = JObject kvs" by blast
  show ?thesis
    using extracted_record_has_file [OF assms(1-3)] assms(2,4)
    unfolding kvs
    by (simp add: rebuild_from_dict_or_json_def open_read_def write_text_def)
qed

lemma exact_copy_without_carriage_returns:
  assumes "fs file_path = Some bytes" and "CR \<notin> set bytes" and "file_path \<noteq> []"
    and "parse bytes = Inr (Module b)" and "output_file_path \<noteq> []"
  shows "\<exists>d. extract_all_definitions fs parse unparse file_path = Inr d
      \<and> rebuild_from_dict_or_json [LF] fs loads dumps d output_file_path
          = Inr (bytes, fs(output_file_path \<mapsto> bytes))"
proof -
  have read: "read_text fs file_path = Inr bytes"
    using assms(1-3) by (simp add: read_text_def universal_newlines_no_CR)
  have ex: "extract_all_definitions fs parse unparse file_path
      = Inr (process_node unparse (Module b) bytes (Some file_path))"
    using read assms(4) by (simp add: extract_all_definitions_def del: process_node.simps)
  show ?thesis
    using rebuild_copies_the_text_read [OF ex read assms(4,5), of "[LF]" loads dumps] ex
    by (simp add: write_newlines_posix del: process_node.simps)
qed

text \<open>
  Claim C1, at the input where the code leaves it. With a path in the record,
  \<^verbatim>\<open>rebuild_from_dict_or_json\<close> returns the text it reads from the original file and
  writes that text, whatever the decoder, the encoder and the unparser are (lemma
  \<open>rebuild_copies_the_text_read\<close>): no text is regenerated, and a file without
  \<^verbatim>\<open>\r\<close> is copied exactly where the line separator is \<^verbatim>\<open>\n\<close> (lemma
  \<open>exact_copy_without_carriage_returns\<close>). But both files are opened
  in text mode, so the text read is the contents with every \<^verbatim>\<open>\r\n\<close> and
  \<^verbatim>\<open>\r\<close> turned into \<^verbatim>\<open>\n\<close>. For the file \<^verbatim>\<open>F.py\<close> of the seven bytes
  \<^verbatim>\<open>x = 1\r\n\<close>, on a platform whose line separator is \<^verbatim>\<open>\n\<close>, the call returns
  and writes the six bytes \<^verbatim>\<open>x = 1\n\<close>.
\<close>

theorem crlf_file_is_not_copied_exactly:
  "extract_all_definitions [''F.py'' \<mapsto> ''x = 1'' @ [CR, LF]] (\<lambda>src. Inr (Module [OtherStmt]))
       (\<lambda>n. []) ''F.py''
     = Inr (JObject [(''summary'', JArray []), (''file'', JString ''F.py''),
         (''module'', JObject []), (''startLine'', JInt 1), (''endLine'', JInt 1)])
   \<and> (case rebuild_from_dict_or_json [LF] [''F.py'' \<mapsto> ''x = 1'' @ [CR, LF]]
            (\<lambda>s. Inl JSONDecodeError) (\<lambda>j. [])
            (JObject [(''summary'', JArray []), (''file'', JString ''F.py''),
              (''module'', JObject []), (''startLine'', JInt 1), (''endLine'', JInt 1)])
            ''out.py'' of
         Inl e \<Rightarrow> False
       | Inr (text, fs') \<Rightarrow>
           text = ''x = 1'' @ [LF] \<and> fs' ''out.py'' = Some (''x = 1'' @ [LF])
           \<and> fs' ''F.py'' = Some (''x = 1'' @ [CR, LF]))
   \<and> ''x = 1'' @ [LF] \<noteq> ''x = 1'' @ [CR, LF]"
  by (simp add: extract_all_definitions_def read_text_def splitlines_def is_linebreak_def
      rebuild_from_dict_or_json_def dict_keys_def dict_get_def open_read_def write_text_def
      write_newlines_def)

section \<open>C2: the order and the text of the rebuilt source\<close>

lemma in_dict_keys: "(k \<in> set (dict_keys d)) = (dict_get d k \<noteq> None)"
  by (simp add: dict_keys_def dict_get_def map_of_eq_None_iff)

lemma start_key_wf: "wf_entry d \<Longrightarrow> start_key d = Inr (JInt (entry_start d))"
  by (cases d; cases "dict_get (fields d) ''startLine''" rule: int_or_absent.cases)
    (auto simp: wf_entry_def start_key_def entry_start_def field_def)

lemma collect_keys_wf:
  "list_all wf_entry ds \<Longrightarrow>
     collect_keys start_key ds = Inr (map (\<lambda>d. (JInt (entry_start d), d)) ds)"
  by (induction ds) (simp_all add: start_key_wf)

lemma insort_py_int:
  "insort_py (JInt (f x), x) (map (\<lambda>d. (JInt (f d), d)) ys)
     = Inr (map (\<lambda>d. (JInt (f d), d)) (insort_key f x ys))"
  by (induction ys) auto

lemma sort_py_int:
  "sort_py (map (\<lambda>d. (JInt (f d), d)) ds) = Inr (map (\<lambda>d. (JInt (f d), d)) (sort_key f ds))"
  by (induction ds) (simp_all add: insort_py_int)

lemma py_sorted_wf:
  "list_all wf_entry ds \<Longrightarrow> py_sorted start_key ds = Inr (sort_key entry_start ds)"
  by (simp add: py_sorted_def collect_keys_wf sort_py_int comp_def)

lemma append_definition_wf:
  "wf_entry d \<Longrightarrow> append_definition d acc = Inr (acc @ map JString (entry_text d))"
proof (cases d)
  case (JObject e)
  assume wf: "wf_entry d"
  show ?thesis
  proof (cases "dict_get e ''functionDefinition''")
    case None
    with wf JObject show ?thesis
      by (cases "dict_get e ''defString''" rule: string_or_absent.cases)
        (auto simp: wf_entry_def append_definition_def entry_text_def field_def in_dict_keys)
  next
    case (Some v)
    with wf JObject show ?thesis
      by (cases v)
        (auto simp: wf_entry_def append_definition_def entry_text_def field_def in_dict_keys)
  qed
qed (simp_all add: wf_entry_def)

lemma append_loop_wf:
  "list_all wf_entry ds \<Longrightarrow>
     append_loop ds acc = Inr (acc @ map JString (concat (map entry_text ds)))"
  by (induction ds arbitrary: acc) (simp_all add: append_definition_wf)

lemma py_strings_strings: "py_strings (map JString ss) = Inr ss"
  by (induction ss) simp_all

lemma rebuild_from_data_wf:
  assumes "dict_get data ''module'' = Some (JObject m)"
    and "list_all wf_entry (dict_values m)"
  shows "rebuild_from_data (JObject data)
     = Inr (join [LF, LF] (concat (map entry_text (sort_key entry_start (dict_values m)))))"
proof -
  have "list_all wf_entry (sort_key entry_start (dict_values m))"
    using assms(2) by (simp add: list_all_iff)
  then show ?thesis
    using assms
    by (simp add: rebuild_from_data_def in_dict_keys py_sorted_wf append_loop_wf py_join_def
        py_strings_strings)
qed


text \<open>
  Claim C2. For a decoded structure whose \<^verbatim>\<open>module\<close> is a dictionary of well-formed
  entries, the sort succeeds, and its result is the entries in ascending
  \<^verbatim>\<open>startLine\<close> order (whatever order the dictionary holds them in), those with one
  \<^verbatim>\<open>startLine\<close> in the order of the dictionary; the rebuilt text is the texts of
  the sorted entries, \<^verbatim>\<open>functionDefinition\<close> or else \<^verbatim>\<open>defString\<close>, joined by
  \<^verbatim>\<open>"\n\n"\<close>, which leaves one blank line between two texts. A dictionary with the
  same entries in another order gives the same text when the \<^verbatim>\<open>startLine\<close>
  values are pairwise distinct.
\<close>

theorem rebuild_is_sorted_stable_and_joined:
  assumes "dict_get data ''module'' = Some (JObject m)"
    and "list_all wf_entry (dict_values m)"
  shows "(\<exists>ys. py_sorted start_key (dict_values m) = Inr ys
            \<and> mset ys = mset (dict_values m)
            \<and> sorted (map entry_start ys)
            \<and> (\<forall>k. filter (\<lambda>d. entry_start d = k) ys
                     = filter (\<lambda>d. entry_start d = k) (dict_values m))
            \<and> rebuild_from_data (JObject data)
                = Inr (join [LF, LF] (concat (map entry_text ys))))
       \<and> (dict_get data' ''module'' = Some (JObject m')
            \<and> mset (dict_values m') = mset (dict_values m)
            \<and> distinct (map entry_start (dict_values m)) \<longrightarrow>
            rebuild_from_data (JObject data') = rebuild_from_data (JObject data))"
proof -
  let ?vs = "dict_values m"
  let ?ys = "sort_key entry_start ?vs"
  have first: "py_sorted start_key ?vs = Inr ?ys
      \<and> mset ?ys = mset ?vs
      \<and> sorted (map entry_start ?ys)
      \<and> (\<forall>k. filter (\<lambda>d. entry_start d = k) ?ys = filter (\<lambda>d. entry_start d = k) ?vs)
      \<and> rebuild_from_data (JObject data) = Inr (join [LF, LF] (concat (map entry_text ?ys)))"
    using py_sorted_wf [OF assms(2)] rebuild_from_data_wf [OF assms]
    by (simp add: sort_key_stable)
  have second: "rebuild_from_data (JObject data') = rebuild_from_data (JObject data)"
    if m': "dict_get data' ''module'' = Some (JObject m')"
      and perm: "mset (dict_values m') = mset ?vs"
      and dist: "distinct (map entry_start ?vs)"
  proof -
    have sets: "set (dict_values m') = set ?vs"
      using perm by (rule mset_eq_setD)
    have wf': "list_all wf_entry (dict_values m')"
      using assms(2) sets by (simp add: list_all_iff)
    have "inj_on entry_start (set (dict_values m'))"
      using dist sets by (simp add: distinct_map)
    then have "sort_key entry_start (dict_values m') = ?ys"
      using perm by (intro sort_key_inj_key_eq) simp_all
    then show ?thesis
      using rebuild_from_data_wf [OF m' wf'] rebuild_from_data_wf [OF assms] by simp
  qed
  from first second show ?thesis by blast
qed

theorem rebuild_is_sorted_stable_and_joined_witness:
  "rebuild_from_data (JObject [(''summary'', JArray []),
      (''module'', JObject
        [(''g'', JObject [(''functionDefinition'', JString ''def g(): pass''), (''startLine'', JInt 4)]),
         (''f'', JObject [(''defString'', JString ''def f(): pass''), (''startLine'', JInt 1)]),
         (''h'', JObject [(''functionDefinition'', JString ''def h(): pass''), (''startLine'', JInt 4)])])])
     = Inr (''def f(): pass'' @ [LF, LF] @ ''def g(): pass'' @ [LF, LF] @ ''def h(): pass'')
   \<and> rebuild_from_data (JObject [(''module'', JObject
        [(''f'', JObject [(''defString'', JString ''def f(): pass''), (''startLine'', JInt 1)]),
         (''g'', JObject [(''functionDefinition'', JString ''def g(): pass''), (''startLine'', JInt 4)])])])
     = rebuild_from_data (JObject [(''module'', JObject
        [(''g'', JObject [(''functionDefinition'', JString ''def g(): pass''), (''startLine'', JInt 4)]),
         (''f'', JObject [(''defString'', JString ''def f(): pass''), (''startLine'', JInt 1)])])])"
proof -
  let ?f = "JObject [(''defString'', JString ''def f(): pass''), (''startLine'', JInt 1)]"
  let ?g = "JObject [(''functionDefinition'', JString ''def g(): pass''), (''startLine'', JInt 4)]"
  let ?h = "JObject [(''functionDefinition'', JString ''def h(): pass''), (''startLine'', JInt 4)]"
  let ?m = "[(''g'', ?g), (''f'', ?f), (''h'', ?h)]"
  let ?data = "[(''summary'', JArray []), (''module'', JObject ?m)]"
  let ?n = "[(''g'', ?g), (''f'', ?f)]"
  let ?n' = "[(''f'', ?f), (''g'', ?g)]"
  have a: "dict_get ?data ''module'' = Some (JObject ?m)"
    by (simp add: dict_get_def)
  have b: "list_all wf_entry (dict_values ?m)"
    by (simp add: dict_values_def wf_entry_def dict_get_def)
  have c: "rebuild_from_data (JObject ?data)
      = Inr (''def f(): pass'' @ [LF, LF] @ ''def g(): pass'' @ [LF, LF] @ ''def h(): pass'')"
  proof -
    from rebuild_is_sorted_stable_and_joined [OF a b, of ?data ?m]
    obtain ys where ys: "py_sorted start_key (dict_values ?m) = Inr ys"
      and joined: "rebuild_from_data (JObject ?data) = Inr (join [LF, LF] (concat (map entry_text ys)))"
      by blast
    have "ys = sort_key entry_start (dict_values ?m)"
      using ys py_sorted_wf [OF b] by simp
    also have "\<dots> = [?f, ?g, ?h]"
      by (simp add: dict_values_def entry_start_def field_def dict_get_def)
    finally have "concat (map entry_text ys) = [''def f(): pass'', ''def g(): pass'', ''def h(): pass'']"
      by (simp add: entry_text_def field_def dict_get_def)
    with joined show ?thesis by simp
  qed
  have a': "dict_get [(''module'', JObject ?n)] ''module'' = Some (JObject ?n)"
    by (simp add: dict_get_def)
  have b': "list_all wf_entry (dict_values ?n)"
    by (simp add: dict_values_def wf_entry_def dict_get_def)
  have d1: "dict_get [(''module'', JObject ?n')] ''module'' = Some (JObject ?n')"
    by (simp add: dict_get_def)
  have d2: "mset (dict_values ?n') = mset (dict_values ?n)"
    by (simp add: dict_values_def)
  have d3: "distinct (map entry_start (dict_values ?n))"
    by (simp add: dict_values_def entry_start_def field_def dict_get_def)
  have d: "rebuild_from_data (JObject [(''module'', JObject ?n')])
      = rebuild_from_data (JObject [(''module'', JObject ?n)])"
    using rebuild_is_sorted_stable_and_joined
      [OF a' b', of "[(''module'', JObject ?n')]" ?n'] d1 d2 d3
    by blast
  from c d show ?thesis by blast
qed

end
